theory Spec2Isabelle
  imports Main "HOL-Library.Finite_Map" "HOL-Library.Sublist"
    "HOL-Library.Char_ord" "HOL-Library.List_Lexorder"
begin

section \<open>Alert notification (probes/alerting/notify.go)\<close>

text \<open>
  The file builds a flat field mapping from an alert record (\<open>alertFields\<close>), and
  notifies about an alert (\<open>notify\<close>) by logging, marking the per-target state,
  pushing the record on an optional channel and running a configured command
  (\<open>notifyCommand\<close>).

  The embedding makes every effect a value. Log calls, the assignment to the state, the
  channel send and the start of a process are the events of a trace, in program order.
  A Go \<open>map[string]string\<close> is a finite map; a nil map and a nil slice read as the empty
  map and the empty list. Go's \<open>int\<close> values are only copied and printed here, never
  computed with, so they are integers.
\<close>

subsection \<open>Data\<close>

text \<open>A Go error value, given by its message.\<close>

datatype error = Err (message: string)

text \<open>
  Modelled from the spec: \<open>endpoint.Endpoint\<close> is declared outside this file. The file
  uses its display name, its label map and its destination-address accessor \<open>Dst()\<close>.
  The labels are given by their entries in the order in which the \<open>range\<close> loop visits
  them; Go leaves that order open, and the keys of a map are distinct.
\<close>

record Endpoint =
  ep_Name :: string
  ep_Labels :: "(string \<times> string) list"
  ep_Dst :: string

text \<open>The time stamp type \<open>time.Time\<close> is the type parameter \<open>'t\<close>.\<close>

record 't AlertInfo =
  Name :: string
  ProbeName :: string
  ConditionID :: string
  Target :: Endpoint
  Failures :: int
  Total :: int
  FailingSince :: 't

text \<open>
  Modelled from the spec: the per-target state, the alert condition, the notification
  configuration and the handler are declared outside this file; these are the fields
  the file reads and writes. A record is extensible, so the per-target state may carry
  further fields.
\<close>

record 't targetState =
  alerted :: bool
  failingSince :: 't
  conditionID :: string

record Condition =
  cond_Failures :: int
  cond_Total :: int

record NotifyConfig =
  Command :: string

text \<open>
  A channel of alert records with its capacity and the records waiting in it. A send
  needs a free slot; a receiver that is ready to take the record counts as one.
\<close>

datatype 't chan = Chan (capacity: nat) (queued: "'t AlertInfo list")

record 't AlertHandler =
  name :: string
  probeName :: string
  condition :: Condition
  notifyCh :: "'t chan option"
  notifyConfig :: "NotifyConfig option"

text \<open>\<open>exec.Cmd\<close>: the path of the executable and the argument vector.\<close>

record Cmd =
  Path :: string
  Args :: "string list"

subsection \<open>Effects\<close>

datatype severity = INFO | WARNING | ERROR

text \<open>The arguments of a formatted log call.\<close>

datatype 't arg = S string | I int | T 't | E error | L "string list"

datatype 't event =
    Logf severity string "'t arg list"
  | Assign_alerted bool
  | ChanSend "'t AlertInfo"
  | CmdStart Cmd "error option"

text \<open>How a call ends: it returns, it panics, or it waits forever on a channel send.\<close>

datatype panic = IndexOutOfRange

datatype outcome = Returned | Panicked panic | Blocked

subsection \<open>Collaborators\<close>

text \<open>
  The functions of other packages that the file calls: \<open>time.Time.Format\<close> with layout
  \<open>time.RFC3339\<close>, \<open>json.Marshal\<close> on a string map, \<open>strtemplate.SubstituteLabels\<close>,
  \<open>shlex.Split\<close>, the path lookup of \<open>exec.CommandContext\<close> and \<open>Cmd.Start\<close>.
  Every definition below takes them as a parameter.
\<close>

record 't collaborators =
  FormatRFC3339 :: "'t \<Rightarrow> string"
  Marshal :: "(string, string) fmap \<Rightarrow> error + string"
  SubstituteLabels :: "string \<Rightarrow> (string, string) fmap \<Rightarrow> string \<times> bool"
  Split :: "string \<Rightarrow> error + string list"
  LookPath :: "string \<Rightarrow> string"
  Start :: "Cmd \<Rightarrow> error option"

subsection \<open>Library functions with a fixed meaning\<close>

text \<open>\<open>strconv.Itoa\<close>: the decimal digits of an integer, with a minus sign if negative.\<close>

definition digit :: "nat \<Rightarrow> char" where
  "digit d = ''0123456789'' ! d"

function digits :: "nat \<Rightarrow> string" where
  "digits n = (if n < 10 then [digit n] else digits (n div 10) @ [digit (n mod 10)])"
  by pat_completeness auto
termination
  by (relation "measure id") auto

declare digits.simps [simp del]

definition Itoa :: "int \<Rightarrow> string" where
  "Itoa i = (if i < 0 then CHR ''-'' # digits (nat (- i)) else digits (nat i))"

text \<open>
  The integer that a decimal numeral denotes, to say what it means that \<open>Itoa\<close> writes
  decimal numerals.
\<close>

definition digitValue :: "char \<Rightarrow> nat" where
  "digitValue c = of_char c - of_char CHR ''0''"

definition fromDigits :: "string \<Rightarrow> nat" where
  "fromDigits s = foldl (\<lambda>a c. 10 * a + digitValue c) 0 s"

definition readInt :: "string \<Rightarrow> int" where
  "readInt s = (case s of [] \<Rightarrow> 0
                | c # cs \<Rightarrow> if c = CHR ''-'' then - int (fromDigits cs) else int (fromDigits s))"

text \<open>\<open>strings.Join\<close>.\<close>

fun Join :: "string list \<Rightarrow> string \<Rightarrow> string" where
  "Join [] sep = []"
| "Join [x] sep = x"
| "Join (x # y # ys) sep = x @ sep @ Join (y # ys) sep"

text \<open>
  \<open>exec.CommandContext\<close>: the argument vector is the name followed by the arguments;
  the path comes from the lookup of the name.
\<close>

definition CommandContext :: "'t collaborators \<Rightarrow> string \<Rightarrow> string list \<Rightarrow> Cmd" where
  "CommandContext ext nm arg = \<lparr>Path = LookPath ext nm, Args = nm # arg\<rparr>"

subsection \<open>alertFields\<close>

definition alertFields ::
  "'t collaborators \<Rightarrow> 't AlertInfo \<Rightarrow> (string, string) fmap \<times> error option" where
  "alertFields ext alertInfo =
    (let fields = fmap_of_list
           [(''alert'', Name alertInfo),
            (''probe'', ProbeName alertInfo),
            (''target'', ep_Dst (Target alertInfo)),
            (''condition_id'', ConditionID alertInfo),
            (''failures'', Itoa (Failures alertInfo)),
            (''total'', Itoa (Total alertInfo)),
            (''since'', FormatRFC3339 ext (FailingSince alertInfo))];
         fields = fold (\<lambda>(k, v) fields. fmupd (''target.label.'' @ k) v fields)
                    (ep_Labels (Target alertInfo)) fields
     in case Marshal ext fields of
          Inl err \<Rightarrow>
            (fmempty, Some (Err (''error marshalling alert fields into json: '' @ message err)))
        | Inr alertJSON \<Rightarrow> (fmupd ''json'' alertJSON fields, None))"

subsection \<open>notifyCommand\<close>

text \<open>
  The context argument only ties the life of the started process to the caller; it is
  left out. The parameter \<open>fields\<close> is written \<open>flds\<close> (the record package owns the
  name). The result is the returned slice, or the panic of an index out of range.
\<close>

definition notifyCommand ::
  "'t collaborators \<Rightarrow> string \<Rightarrow> (string, string) fmap \<Rightarrow> bool
    \<Rightarrow> (panic + string list) \<times> 't event list" where
  "notifyCommand ext command flds dryRun =
    (let (res, foundAll) = SubstituteLabels ext command flds;
         tr = (if \<not> foundAll
               then [Logf WARNING ''couldn't substitute all labels in command: %s'' [S command]]
               else []);
         command = res
     in case Split ext command of
          Inl err \<Rightarrow>
            (Inr [], tr @ [Logf ERROR ''Error parsing command line (%s): %v'' [S command, E err]])
        | Inr cmdParts \<Rightarrow>
            let tr = tr @ [Logf INFO ''Starting external command: %s'' [S (Join cmdParts '' '')]]
            in (case cmdParts of
                  [] \<Rightarrow> (Inl IndexOutOfRange, tr)
                | nm # arg \<Rightarrow>
                    let cmd = CommandContext ext nm arg
                    in if dryRun then (Inr (Args cmd), tr)
                       else (case Start ext cmd of
                               Some err \<Rightarrow>
                                 (Inr [], tr @ [CmdStart cmd (Some err),
                                    Logf ERROR ''error while starting the cmd: %s %s. Err: %v''
                                      [S (Path cmd), L (Args cmd), E err]])
                             | None \<Rightarrow> (Inr [], tr @ [CmdStart cmd None]))))"

subsection \<open>notify\<close>

text \<open>The channel send \<open>ch <- x\<close>: \<open>None\<close> when no slot is free and the send waits.\<close>

definition send :: "'t chan \<Rightarrow> 't AlertInfo \<Rightarrow> 't chan option" where
  "send ch x = (if length (queued ch) < capacity ch
                then Some (Chan (capacity ch) (queued ch @ [x])) else None)"

text \<open>
  The result is how the call ends, the channel and the per-target state after it, and
  the trace of its effects.
\<close>

definition notify ::
  "'t collaborators \<Rightarrow> 't AlertHandler \<Rightarrow> Endpoint \<Rightarrow> ('t, 'z) targetState_scheme \<Rightarrow> int
    \<Rightarrow> outcome \<times> 't chan option \<times> ('t, 'z) targetState_scheme \<times> 't event list" where
  "notify ext ah ep ts totalFailures =
    (let tr = [Logf WARNING
                 ''ALERT (%s): target (%s), failures (%d) higher than (%d) since (%v)''
                 [S (name ah), S (ep_Name ep), I totalFailures,
                  I (cond_Failures (condition ah)), T (failingSince ts)]];
         ts = ts\<lparr>alerted := True\<rparr>;
         tr = tr @ [Assign_alerted True];
         alertInfo = \<lparr>Name = name ah, ProbeName = probeName ah,
                      ConditionID = conditionID ts, Target = ep,
                      Failures = totalFailures, Total = cond_Total (condition ah),
                      FailingSince = failingSince ts\<rparr>
     in case (case notifyCh ah of None \<Rightarrow> Some (None, [])
              | Some ch \<Rightarrow> map_option (\<lambda>ch'. (Some ch', [ChanSend alertInfo])) (send ch alertInfo)) of
          None \<Rightarrow> (Blocked, notifyCh ah, ts, tr)
        | Some (ch', sent) \<Rightarrow>
            let tr = tr @ sent;
                (fields, err) = alertFields ext alertInfo;
                tr = (case err of None \<Rightarrow> tr
                      | Some e \<Rightarrow> tr @ [Logf ERROR ''Error getting alert fields: %v'' [E e]])
            in if notifyConfig ah \<noteq> None \<and> Command (the (notifyConfig ah)) \<noteq> ''''
               then (let (r, trc) = notifyCommand ext (Command (the (notifyConfig ah))) fields False
                     in (case r of Inl p \<Rightarrow> Panicked p | Inr _ \<Rightarrow> Returned, ch', ts, tr @ trc))
               else (Returned, ch', ts, tr))"

subsection \<open>Names for subterms\<close>

text \<open>
  The field set that \<open>alertFields\<close> hands to the JSON encoder (the map literal and the
  loop over the labels); the alert record that \<open>notify\<close> builds from the state as it is
  after the assignment (which leaves \<open>conditionID\<close> and \<open>failingSince\<close> as they were);
  whether a command is configured; whether the channel send has to wait. These repeat
  subterms of \<open>alertFields\<close> and \<open>notify\<close>, to name them in statements.
\<close>

definition fieldSet :: "'t collaborators \<Rightarrow> 't AlertInfo \<Rightarrow> (string, string) fmap" where
  "fieldSet ext alertInfo =
     fold (\<lambda>(k, v) fields. fmupd (''target.label.'' @ k) v fields)
       (ep_Labels (Target alertInfo))
       (fmap_of_list
          [(''alert'', Name alertInfo),
           (''probe'', ProbeName alertInfo),
           (''target'', ep_Dst (Target alertInfo)),
           (''condition_id'', ConditionID alertInfo),
           (''failures'', Itoa (Failures alertInfo)),
           (''total'', Itoa (Total alertInfo)),
           (''since'', FormatRFC3339 ext (FailingSince alertInfo))])"

definition newAlertInfo ::
  "'t AlertHandler \<Rightarrow> Endpoint \<Rightarrow> ('t, 'z) targetState_scheme \<Rightarrow> int \<Rightarrow> 't AlertInfo" where
  "newAlertInfo ah ep ts totalFailures =
     \<lparr>Name = name ah, ProbeName = probeName ah, ConditionID = conditionID ts, Target = ep,
      Failures = totalFailures, Total = cond_Total (condition ah),
      FailingSince = failingSince ts\<rparr>"

definition commandConfigured :: "'t AlertHandler \<Rightarrow> bool" where
  "commandConfigured ah = (notifyConfig ah \<noteq> None \<and> Command (the (notifyConfig ah)) \<noteq> [])"

definition sendBlocks :: "'t AlertHandler \<Rightarrow> bool" where
  "sendBlocks ah = (case notifyCh ah of None \<Rightarrow> False
                    | Some ch \<Rightarrow> \<not> length (queued ch) < capacity ch)"

text \<open>The four kinds of effect of \<open>notify\<close>, in the order of the program text.\<close>

datatype phase = Audit | Mutation | Push | Dispatch

fun phase_of :: "'t event \<Rightarrow> phase" where
  "phase_of (Logf sev fmt args) =
     (if sev = WARNING
         \<and> fmt = ''ALERT (%s): target (%s), failures (%d) higher than (%d) since (%v)''
      then Audit else Dispatch)"
| "phase_of (Assign_alerted b) = Mutation"
| "phase_of (ChanSend a) = Push"
| "phase_of (CmdStart c r) = Dispatch"

section \<open>Concrete collaborators\<close>

subsection \<open>Template substitution\<close>

text \<open>
  Modelled from the spec: \<open>strtemplate.SubstituteLabels\<close> is outside this file. It
  takes a template and a mapping and returns the substituted string and whether all
  placeholders were resolved. A placeholder is a field name in double braces; one
  whose name is not in the mapping is left as literal text, as is an opening pair of
  braces that is never closed.
\<close>

datatype segment = Ch char | Placeholder string

text \<open>The state is \<open>None\<close> in plain text and the name read so far inside a placeholder.\<close>

fun segments :: "string option \<Rightarrow> string \<Rightarrow> segment list" where
  "segments None [] = []"
| "segments None (c # d # cs) =
     (if c = CHR ''{'' \<and> d = CHR ''{'' then segments (Some []) cs
      else Ch c # segments None (d # cs))"
| "segments None [c] = [Ch c]"
| "segments (Some nm) (c # d # cs) =
     (if c = CHR ''}'' \<and> d = CHR ''}'' then Placeholder nm # segments None cs
      else segments (Some (nm @ [c])) (d # cs))"
| "segments (Some nm) cs = map Ch (''{{'' @ nm @ cs)"

definition substitute :: "(string, string) fmap \<Rightarrow> segment \<Rightarrow> string" where
  "substitute labels seg =
     (case seg of Ch c \<Rightarrow> [c]
      | Placeholder k \<Rightarrow>
          (case fmlookup labels k of Some v \<Rightarrow> v | None \<Rightarrow> ''{{'' @ k @ ''}}''))"

definition resolved :: "(string, string) fmap \<Rightarrow> segment \<Rightarrow> bool" where
  "resolved labels seg =
     (case seg of Ch c \<Rightarrow> True | Placeholder k \<Rightarrow> fmlookup labels k \<noteq> None)"

definition strtemplate_SubstituteLabels ::
  "string \<Rightarrow> (string, string) fmap \<Rightarrow> string \<times> bool" where
  "strtemplate_SubstituteLabels inp labels =
     (let segs = segments None inp
      in (concat (map (substitute labels) segs), list_all (resolved labels) segs))"

subsection \<open>Tokenizer\<close>

text \<open>
  Modelled from the spec: the tokenizer \<open>shlex.Split\<close> is outside this file. It splits
  a command line into words at white space; single quotes and double quotes group, a
  backslash takes the next character literally (also inside double quotes), \<open>#\<close> at the
  start of a word opens a comment up to the end of the line; a quote or an escape that
  the input never closes is an error.
\<close>

datatype lexerState =
  startState | inWordState | escapingState | escapingQuotedState
  | quotingEscapingState | quotingState | commentState

definition spaceRune :: "char \<Rightarrow> bool" where
  "spaceRune c = (c = CHR '' '' \<or> c = CHR 0x09 \<or> c = CHR 0x0D \<or> c = CHR 0x0A)"

definition emit :: "string \<Rightarrow> error + string list \<Rightarrow> error + string list" where
  "emit w r = (case r of Inl err \<Rightarrow> Inl err | Inr ws \<Rightarrow> Inr (w # ws))"

fun scanStream :: "lexerState \<Rightarrow> string \<Rightarrow> string \<Rightarrow> error + string list" where
  "scanStream st w [] =
     (case st of
        startState \<Rightarrow> Inr []
      | inWordState \<Rightarrow> Inr [w]
      | commentState \<Rightarrow> Inr []
      | escapingState \<Rightarrow> Inl (Err ''EOF found after escape character'')
      | escapingQuotedState \<Rightarrow> Inl (Err ''EOF found after escape character'')
      | quotingEscapingState \<Rightarrow> Inl (Err ''EOF found when expecting closing quote'')
      | quotingState \<Rightarrow> Inl (Err ''EOF found when expecting closing quote''))"
| "scanStream st w (c # cs) =
     (case st of
        startState \<Rightarrow>
          if spaceRune c then scanStream startState [] cs
          else if c = CHR 0x22 then scanStream quotingEscapingState [] cs
          else if c = CHR 0x27 then scanStream quotingState [] cs
          else if c = CHR 0x5C then scanStream escapingState [] cs
          else if c = CHR ''#'' then scanStream commentState [] cs
          else scanStream inWordState [c] cs
      | inWordState \<Rightarrow>
          if spaceRune c then emit w (scanStream startState [] cs)
          else if c = CHR 0x22 then scanStream quotingEscapingState w cs
          else if c = CHR 0x27 then scanStream quotingState w cs
          else if c = CHR 0x5C then scanStream escapingState w cs
          else scanStream inWordState (w @ [c]) cs
      | escapingState \<Rightarrow> scanStream inWordState (w @ [c]) cs
      | escapingQuotedState \<Rightarrow> scanStream quotingEscapingState (w @ [c]) cs
      | quotingEscapingState \<Rightarrow>
          if c = CHR 0x22 then scanStream inWordState w cs
          else if c = CHR 0x5C then scanStream escapingQuotedState w cs
          else scanStream quotingEscapingState (w @ [c]) cs
      | quotingState \<Rightarrow>
          if c = CHR 0x27 then scanStream inWordState w cs
          else scanStream quotingState (w @ [c]) cs
      | commentState \<Rightarrow>
          if c = CHR 0x0A then scanStream startState [] cs
          else scanStream commentState w cs)"

definition shlex_Split :: "string \<Rightarrow> error + string list" where
  "shlex_Split s = scanStream startState [] s"

subsection \<open>JSON for string maps\<close>

text \<open>
  Modelled from the spec: the JSON encoding of the field set is outside this file; it is
  the library encoder \<open>json.Marshal\<close> on a string map, given here as the library
  documents it. The encoder writes an object with the keys in ascending order, every
  key and value a string in double quotes. In a string it writes a backslash before a
  double quote and a backslash, the short escapes for line feed, carriage return and
  tab, a \<open>u00XX\<close> escape for the other control characters and for the characters
  \<open><\<close>, \<open>>\<close> and \<open>&\<close>, the escapes \<open>u2028\<close> and \<open>u2029\<close> for these two runes, and the
  escape \<open>ufffd\<close> (the replacement rune) for every byte that is not part of
  well-formed UTF-8. It never fails on a string map.
\<close>

definition between :: "int \<Rightarrow> char \<Rightarrow> int \<Rightarrow> bool" where
  "between lo c hi = (lo \<le> of_char c \<and> of_char c \<le> hi)"

text \<open>
  The number of bytes of the well-formed UTF-8 rune at the head of a string, and 0
  where there is none (\<open>utf8.DecodeRuneInString\<close> then gives the error rune with
  width 1).
\<close>

fun runeWidth :: "string \<Rightarrow> nat" where
  "runeWidth [] = 0"
| "runeWidth (b # bs) =
     (if between 0x00 b 0x7F then 1
      else if between 0xC2 b 0xDF then
        (case bs of
           c1 # r1 \<Rightarrow> if between 0x80 c1 0xBF then 2 else 0
         | [] \<Rightarrow> 0)
      else if between 0xE0 b 0xEF then
        (case bs of
           c1 # c2 # r2 \<Rightarrow>
             if between (if b = CHR 0xE0 then 0xA0 else 0x80) c1
                        (if b = CHR 0xED then 0x9F else 0xBF)
                \<and> between 0x80 c2 0xBF
             then 3 else 0
         | _ \<Rightarrow> 0)
      else if between 0xF0 b 0xF4 then
        (case bs of
           c1 # c2 # c3 # r3 \<Rightarrow>
             if between (if b = CHR 0xF0 then 0x90 else 0x80) c1
                        (if b = CHR 0xF4 then 0x8F else 0xBF)
                \<and> between 0x80 c2 0xBF \<and> between 0x80 c3 0xBF
             then 4 else 0
         | _ \<Rightarrow> 0)
      else 0)"

definition hexDigit :: "nat \<Rightarrow> char" where
  "hexDigit d = ''0123456789abcdef'' ! d"

text \<open>The text that the encoder writes for one ASCII byte of a string.\<close>

definition escapeByte :: "char \<Rightarrow> string" where
  "escapeByte b =
     (if between 0x20 b 0x7F \<and> b \<noteq> CHR 0x22 \<and> b \<noteq> CHR 0x5C
         \<and> b \<noteq> CHR ''<'' \<and> b \<noteq> CHR ''>'' \<and> b \<noteq> CHR ''&''
      then [b]
      else if b = CHR 0x22 \<or> b = CHR 0x5C then [CHR 0x5C, b]
      else if b = CHR 0x0A then [CHR 0x5C, CHR ''n'']
      else if b = CHR 0x0D then [CHR 0x5C, CHR ''r'']
      else if b = CHR 0x09 then [CHR 0x5C, CHR ''t'']
      else [CHR 0x5C, CHR ''u'', CHR ''0'', CHR ''0'',
            hexDigit (of_char b div 16), hexDigit (of_char b mod 16)])"

text \<open>
  The text between the quotes that the encoder writes for a string. The first argument
  counts the bytes of the current rune that are dealt with already.
\<close>

fun appendString :: "nat \<Rightarrow> string \<Rightarrow> string" where
  "appendString k [] = []"
| "appendString (Suc k) (b # bs) = appendString k bs"
| "appendString 0 (b # bs) =
     (if runeWidth (b # bs) = 0 then CHR 0x5C # ''ufffd'' @ appendString 0 bs
      else if runeWidth (b # bs) = 1 then escapeByte b @ appendString 0 bs
      else if take 3 (b # bs) = [CHR 0xE2, CHR 0x80, CHR 0xA8]
      then CHR 0x5C # ''u2028'' @ appendString 2 bs
      else if take 3 (b # bs) = [CHR 0xE2, CHR 0x80, CHR 0xA9]
      then CHR 0x5C # ''u2029'' @ appendString 2 bs
      else take (runeWidth (b # bs)) (b # bs) @ appendString (runeWidth (b # bs) - 1) bs)"

definition quote :: "string \<Rightarrow> string" where
  "quote s = CHR 0x22 # appendString 0 s @ [CHR 0x22]"

fun members :: "(string \<times> string) list \<Rightarrow> string" where
  "members [] = []"
| "members [(k, v)] = quote k @ '':'' @ quote v"
| "members ((k, v) # kv # kvs) = quote k @ '':'' @ quote v @ '','' @ members (kv # kvs)"

definition json_Marshal :: "(string, string) fmap \<Rightarrow> error + string" where
  "json_Marshal m = Inr (''{'' @ members (sorted_list_of_fmap m) @ ''}'')"









subsection \<open>A set of collaborators\<close>

text \<open>
  The time stamp is given by its RFC 3339 text, the path lookup finds every name in
  \<open>/usr/bin\<close>, and every process starts.
\<close>

definition collab :: "string collaborators" where
  "collab = \<lparr>FormatRFC3339 = (\<lambda>t. t), Marshal = json_Marshal,
             SubstituteLabels = strtemplate_SubstituteLabels, Split = shlex_Split,
             LookPath = (\<lambda>nm. ''/usr/bin/'' @ nm), Start = (\<lambda>cmd. None)\<rparr>"

section \<open>Properties of alertFields\<close>

subsection \<open>The field set\<close>

lemma fold_labels_dom:
  "fmdom' (fold (\<lambda>(k, v) fields. fmupd (p @ k) v fields) ls m)
     = fmdom' m \<union> (\<lambda>k. p @ k) ` fst ` set ls"
  by (induction ls arbitrary: m) (auto simp: case_prod_unfold)

lemma fold_labels_other:
  "key \<notin> (\<lambda>k. p @ k) ` fst ` set ls \<Longrightarrow>
   fmlookup (fold (\<lambda>(k, v) fields. fmupd (p @ k) v fields) ls m) key = fmlookup m key"
  by (induction ls arbitrary: m) (auto simp: case_prod_unfold)

lemma fold_labels_entry:
  "distinct (map fst ls) \<Longrightarrow> (k, v) \<in> set ls \<Longrightarrow>
   fmlookup (fold (\<lambda>(k, v) fields. fmupd (p @ k) v fields) ls m) (p @ k) = Some v"
proof (induction ls arbitrary: m)
  case Nil
  then show ?case by simp
next
  case (Cons a ls)
  show ?case
  proof (cases "(k, v) = a")
    case True
    with Cons.prems have "k \<notin> fst ` set ls" by force
    then have "p @ k \<notin> (\<lambda>k. p @ k) ` fst ` set ls" by auto
    with True show ?thesis by (auto simp: fold_labels_other)
  next
    case False
    with Cons show ?thesis by auto
  qed
qed

lemma alertFields_fieldSet:
  "alertFields ext a =
     (case Marshal ext (fieldSet ext a) of
        Inl err \<Rightarrow>
          (fmempty, Some (Err (''error marshalling alert fields into json: '' @ message err)))
      | Inr j \<Rightarrow> (fmupd ''json'' j (fieldSet ext a), None))"
  unfolding alertFields_def fieldSet_def Let_def by (rule refl)

lemma fieldSet_dom:
  "fmdom' (fieldSet ext a) =
     {''alert'', ''probe'', ''target'', ''condition_id'', ''failures'', ''total'', ''since''}
     \<union> (\<lambda>k. ''target.label.'' @ k) ` fst ` set (ep_Labels (Target a))"
  unfolding fieldSet_def fold_labels_dom by auto

lemma fieldSet_reserved:
  "key \<in> {''alert'', ''probe'', ''target'', ''condition_id'', ''failures'', ''total'', ''since'', ''json''} \<Longrightarrow>
   fmlookup (fieldSet ext a) key =
     map_of [(''alert'', Name a), (''probe'', ProbeName a), (''target'', ep_Dst (Target a)),
             (''condition_id'', ConditionID a), (''failures'', Itoa (Failures a)),
             (''total'', Itoa (Total a)), (''since'', FormatRFC3339 ext (FailingSince a))] key"
proof -
  assume k: "key \<in> {''alert'', ''probe'', ''target'', ''condition_id'', ''failures'', ''total'', ''since'', ''json''}"
  then have "key \<notin> (\<lambda>k. ''target.label.'' @ k) ` fst ` set (ep_Labels (Target a))"
    by auto
  then have "fmlookup (fieldSet ext a) key =
     fmlookup (fmap_of_list
       [(''alert'', Name a), (''probe'', ProbeName a), (''target'', ep_Dst (Target a)),
        (''condition_id'', ConditionID a), (''failures'', Itoa (Failures a)),
        (''total'', Itoa (Total a)), (''since'', FormatRFC3339 ext (FailingSince a))]) key"
    unfolding fieldSet_def by (rule fold_labels_other)
  then show ?thesis by (simp only: fmlookup_of_list)
qed

lemma fieldSet_label:
  "distinct (map fst (ep_Labels (Target a))) \<Longrightarrow> (k, v) \<in> set (ep_Labels (Target a)) \<Longrightarrow>
   fmlookup (fieldSet ext a) (''target.label.'' @ k) = Some v"
  unfolding fieldSet_def by (rule fold_labels_entry)

lemma fieldSet_card:
  "card (fmdom' (fieldSet ext a)) = 7 + card (fst ` set (ep_Labels (Target a)))"
proof -
  let ?R = "{''alert'', ''probe'', ''target'', ''condition_id'', ''failures'', ''total'', ''since''}"
  let ?L = "(\<lambda>k. ''target.label.'' @ k) ` fst ` set (ep_Labels (Target a))"
  have "?R \<inter> ?L = {}" by auto
  moreover have "card ?R = 7" by simp
  moreover have "card ?L = card (fst ` set (ep_Labels (Target a)))"
    by (rule card_image) (simp add: inj_on_def)
  ultimately show ?thesis
    unfolding fieldSet_dom by (subst card_Un_disjoint) auto
qed

section \<open>Properties of notifyCommand\<close>

lemma notifyCommand_split_error:
  assumes "Split ext (fst (SubstituteLabels ext command flds)) = Inl err"
  shows "notifyCommand ext command flds dryRun =
           (Inr [],
            (if snd (SubstituteLabels ext command flds) then []
             else [Logf WARNING ''couldn't substitute all labels in command: %s'' [S command]])
            @ [Logf ERROR ''Error parsing command line (%s): %v''
                 [S (fst (SubstituteLabels ext command flds)), E err]])"
proof (cases "SubstituteLabels ext command flds")
  case (Pair res foundAll)
  with assms show ?thesis by (simp add: notifyCommand_def)
qed

text \<open>
  C6. When the tokenizer rejects the substituted command line, \<open>notifyCommand\<close> logs the
  error as the last thing it does, calls \<open>Start\<close> for no command, and returns the nil
  slice; the error goes nowhere but into the log.
\<close>

theorem notifyCommand_tokenization_error:
  assumes "Split ext (fst (SubstituteLabels ext command flds)) = Inl err"
  shows "\<exists>tr. notifyCommand ext command flds dryRun =
           (Inr [], tr @ [Logf ERROR ''Error parsing command line (%s): %v''
                            [S (fst (SubstituteLabels ext command flds)), E err]])
         \<and> (\<forall>c r. CmdStart c r \<notin> set tr)"
  using notifyCommand_split_error [OF assms, of dryRun] by auto

theorem notifyCommand_tokenization_error_witness:
  "Split collab (fst (SubstituteLabels collab ''notify.sh 'abc'' fmempty))
     = Inl (Err ''EOF found when expecting closing quote'')
   \<and> notifyCommand collab ''notify.sh 'abc'' fmempty False =
       (Inr [], [Logf ERROR ''Error parsing command line (%s): %v''
                   [S ''notify.sh 'abc'', E (Err ''EOF found when expecting closing quote'')]])"
proof -
  have sub: "SubstituteLabels collab ''notify.sh 'abc'' fmempty = (''notify.sh 'abc'', True)"
    by (simp add: collab_def strtemplate_SubstituteLabels_def substitute_def resolved_def)
  have split: "Split collab (fst (SubstituteLabels collab ''notify.sh 'abc'' fmempty))
     = Inl (Err ''EOF found when expecting closing quote'')"
    unfolding sub by (simp add: collab_def shlex_Split_def spaceRune_def emit_def)
  from notifyCommand_tokenization_error [OF split, of False]
  obtain tr where tr: "notifyCommand collab ''notify.sh 'abc'' fmempty False =
           (Inr [], tr @ [Logf ERROR ''Error parsing command line (%s): %v''
                            [S (fst (SubstituteLabels collab ''notify.sh 'abc'' fmempty)),
                             E (Err ''EOF found when expecting closing quote'')]])"
    by blast
  have "notifyCommand collab ''notify.sh 'abc'' fmempty False =
           (Inr [], [Logf ERROR ''Error parsing command line (%s): %v''
                            [S (fst (SubstituteLabels collab ''notify.sh 'abc'' fmempty)),
                             E (Err ''EOF found when expecting closing quote'')]])"
    using notifyCommand_split_error [OF split, of False] by (simp add: sub)
  with tr split show ?thesis by (simp add: sub)
qed

lemma notifyCommand_empty:
  assumes "Split ext (fst (SubstituteLabels ext command flds)) = Inr []"
  shows "notifyCommand ext command flds dryRun =
           (Inl IndexOutOfRange,
            (if snd (SubstituteLabels ext command flds) then []
             else [Logf WARNING ''couldn't substitute all labels in command: %s'' [S command]])
            @ [Logf INFO ''Starting external command: %s'' [S (Join [] '' '')]])"
proof (cases "SubstituteLabels ext command flds")
  case (Pair res foundAll)
  with assms show ?thesis by (simp add: notifyCommand_def)
qed

lemma notifyCommand_dry:
  assumes "Split ext (fst (SubstituteLabels ext command flds)) = Inr (nm # arg)"
  shows "notifyCommand ext command flds True =
           (Inr (nm # arg),
            (if snd (SubstituteLabels ext command flds) then []
             else [Logf WARNING ''couldn't substitute all labels in command: %s'' [S command]])
            @ [Logf INFO ''Starting external command: %s'' [S (Join (nm # arg) '' '')]])"
proof (cases "SubstituteLabels ext command flds")
  case (Pair res foundAll)
  with assms show ?thesis by (simp add: notifyCommand_def CommandContext_def)
qed

lemma notifyCommand_live:
  assumes "Split ext (fst (SubstituteLabels ext command flds)) = Inr (nm # arg)"
  shows "notifyCommand ext command flds False =
           (Inr [],
            (if snd (SubstituteLabels ext command flds) then []
             else [Logf WARNING ''couldn't substitute all labels in command: %s'' [S command]])
            @ [Logf INFO ''Starting external command: %s'' [S (Join (nm # arg) '' '')],
               CmdStart (CommandContext ext nm arg) (Start ext (CommandContext ext nm arg))]
            @ (case Start ext (CommandContext ext nm arg) of None \<Rightarrow> []
               | Some err \<Rightarrow>
                   [Logf ERROR ''error while starting the cmd: %s %s. Err: %v''
                      [S (Path (CommandContext ext nm arg)), L (Args (CommandContext ext nm arg)),
                       E err]]))"
proof (cases "SubstituteLabels ext command flds")
  case (Pair res foundAll)
  with assms show ?thesis by (simp add: notifyCommand_def Let_def split: option.splits)
qed

lemma notifyCommand_returns:
  "fst (notifyCommand ext command flds dryRun) =
     (case Split ext (fst (SubstituteLabels ext command flds)) of
        Inl err \<Rightarrow> Inr []
      | Inr cmdParts \<Rightarrow>
          (case cmdParts of [] \<Rightarrow> Inl IndexOutOfRange
           | nm # arg \<Rightarrow> Inr (if dryRun then nm # arg else [])))"
proof (cases "Split ext (fst (SubstituteLabels ext command flds))")
  case (Inl err)
  then show ?thesis by (simp add: notifyCommand_split_error)
next
  case (Inr cmdParts)
  show ?thesis
  proof (cases cmdParts)
    case Nil
    with Inr show ?thesis by (simp add: notifyCommand_empty)
  next
    case (Cons nm arg)
    with Inr show ?thesis
      by (cases dryRun) (simp_all add: notifyCommand_dry notifyCommand_live)
  qed
qed

lemma notifyCommand_phase: "e \<in> set (snd (notifyCommand ext command flds dryRun)) \<Longrightarrow> phase_of e = Dispatch"
proof (cases "Split ext (fst (SubstituteLabels ext command flds))")
  case (Inl err)
  assume "e \<in> set (snd (notifyCommand ext command flds dryRun))"
  with Inl show ?thesis by (auto simp: notifyCommand_split_error split: if_splits)
next
  case (Inr cmdParts)
  assume e: "e \<in> set (snd (notifyCommand ext command flds dryRun))"
  show ?thesis
  proof (cases cmdParts)
    case Nil
    with Inr e show ?thesis by (auto simp: notifyCommand_empty split: if_splits)
  next
    case (Cons nm arg)
    with Inr e show ?thesis
      by (cases dryRun) (auto simp: notifyCommand_dry notifyCommand_live split: if_splits option.splits)
  qed
qed

lemma collab_plain:
  "SubstituteLabels collab '' '' fmempty = ('' '', True)"
  "Split collab '' '' = Inr []"
  by (simp_all add: collab_def strtemplate_SubstituteLabels_def substitute_def resolved_def
        shlex_Split_def spaceRune_def)

text \<open>
  C9. A command line that the tokenizer splits into no word at all makes
  \<open>notifyCommand\<close> panic: it reads the first element of the empty vector, after logging
  the (empty) command line, in dry-run mode and in live mode alike, and starts nothing.
\<close>

theorem notifyCommand_empty_vector_panic:
  assumes "Split ext (fst (SubstituteLabels ext command flds)) = Inr []"
  shows "fst (notifyCommand ext command flds dryRun) = Inl IndexOutOfRange
       \<and> last (snd (notifyCommand ext command flds dryRun))
           = Logf INFO ''Starting external command: %s'' [S []]
       \<and> (\<forall>c r. CmdStart c r \<notin> set (snd (notifyCommand ext command flds dryRun)))"
  by (simp add: notifyCommand_empty [OF assms])

theorem notifyCommand_empty_vector_panic_witness:
  "Split collab (fst (SubstituteLabels collab '' '' fmempty)) = Inr []
   \<and> fst (notifyCommand collab '' '' fmempty False) = Inl IndexOutOfRange"
proof -
  have split: "Split collab (fst (SubstituteLabels collab '' '' fmempty)) = Inr []"
    by (simp add: collab_plain)
  from notifyCommand_empty_vector_panic [OF split, of False] split show ?thesis by blast
qed

text \<open>
  C8 at a command line of one space, in dry-run mode: the tokenizer succeeds with no
  word, and the call panics instead of returning an argument vector.
\<close>

theorem notifyCommand_dryRun_blank_command:
  "Split collab (fst (SubstituteLabels collab '' '' fmempty)) = Inr []
   \<and> fst (notifyCommand collab '' '' fmempty True) = Inl IndexOutOfRange"
  by (simp add: notifyCommand_returns collab_plain)




section \<open>Properties of notify\<close>

lemma notify_state: "fst (snd (snd (notify ext ah ep ts n))) = ts\<lparr>alerted := True\<rparr>"
  by (simp add: notify_def Let_def split: option.splits prod.splits sum.splits)

text \<open>
  C10. The per-target state after \<open>notify\<close> is the state before it with \<open>alerted\<close> set:
  \<open>failingSince\<close>, \<open>conditionID\<close> and every further field are as they were, however the
  call ends.
\<close>

theorem notify_frame:
  "(case notify ext ah ep ts n of (out, ch', ts', tr) \<Rightarrow>
      ts' = ts\<lparr>alerted := True\<rparr>
      \<and> failingSince ts' = failingSince ts \<and> conditionID ts' = conditionID ts)"
  using notify_state [of ext ah ep ts n] by (auto split: prod.splits)

theorem notify_frame_witness:
  "(case notify collab
      \<lparr>name = ''disk-full'', probeName = ''disk'',
       condition = \<lparr>cond_Failures = 3, cond_Total = 5\<rparr>, notifyCh = None,
       notifyConfig = Some \<lparr>Command = ''notify.sh {{target}}''\<rparr>\<rparr>
      \<lparr>ep_Name = ''web'', ep_Labels = [], ep_Dst = ''host1''\<rparr>
      \<lparr>alerted = False, failingSince = ''2023-01-02T03:04:05Z'', conditionID = ''c1''\<rparr> 4
    of (out, ch', ts', tr) \<Rightarrow>
      ts' = \<lparr>alerted = True, failingSince = ''2023-01-02T03:04:05Z'', conditionID = ''c1''\<rparr>)"
  using notify_frame [where ext = collab
      and ah = "\<lparr>name = ''disk-full'', probeName = ''disk'',
       condition = \<lparr>cond_Failures = 3, cond_Total = 5\<rparr>, notifyCh = None,
       notifyConfig = Some \<lparr>Command = ''notify.sh {{target}}''\<rparr>\<rparr>"
      and ep = "\<lparr>ep_Name = ''web'', ep_Labels = [], ep_Dst = ''host1''\<rparr>"
      and ts = "\<lparr>alerted = False, failingSince = ''2023-01-02T03:04:05Z'', conditionID = ''c1''\<rparr>"
      and n = 4]
  by (simp split: prod.splits)

lemma notify_blocked:
  assumes "sendBlocks ah"
  shows "notify ext ah ep ts n =
           (Blocked, notifyCh ah, ts\<lparr>alerted := True\<rparr>,
            [Logf WARNING ''ALERT (%s): target (%s), failures (%d) higher than (%d) since (%v)''
               [S (name ah), S (ep_Name ep), I n, I (cond_Failures (condition ah)),
                T (failingSince ts)],
             Assign_alerted True])"
  using assms
  by (auto simp: notify_def sendBlocks_def send_def Let_def split: option.splits)

lemma notify_runs:
  assumes "\<not> sendBlocks ah"
  shows "notify ext ah ep ts n =
           ((if commandConfigured ah
             then (case fst (notifyCommand ext (Command (the (notifyConfig ah)))
                               (fst (alertFields ext (newAlertInfo ah ep ts n))) False) of
                     Inl p \<Rightarrow> Panicked p | Inr r \<Rightarrow> Returned)
             else Returned),
            map_option (\<lambda>ch. Chan (capacity ch) (queued ch @ [newAlertInfo ah ep ts n]))
              (notifyCh ah),
            ts\<lparr>alerted := True\<rparr>,
            [Logf WARNING ''ALERT (%s): target (%s), failures (%d) higher than (%d) since (%v)''
               [S (name ah), S (ep_Name ep), I n, I (cond_Failures (condition ah)),
                T (failingSince ts)],
             Assign_alerted True]
            @ (case notifyCh ah of None \<Rightarrow> [] | Some ch \<Rightarrow> [ChanSend (newAlertInfo ah ep ts n)])
            @ (case snd (alertFields ext (newAlertInfo ah ep ts n)) of None \<Rightarrow> []
               | Some e \<Rightarrow> [Logf ERROR ''Error getting alert fields: %v'' [E e]])
            @ (if commandConfigured ah
               then snd (notifyCommand ext (Command (the (notifyConfig ah)))
                           (fst (alertFields ext (newAlertInfo ah ep ts n))) False)
               else []))"
proof -
  obtain fs err where af: "alertFields ext (newAlertInfo ah ep ts n) = (fs, err)"
    by (cases "alertFields ext (newAlertInfo ah ep ts n)")
  obtain r trc where nc: "notifyCommand ext (Command (the (notifyConfig ah))) fs False = (r, trc)"
    by (cases "notifyCommand ext (Command (the (notifyConfig ah))) fs False")
  have ai: "\<lparr>Name = name ah, ProbeName = probeName ah, ConditionID = conditionID ts,
             Target = ep, Failures = n, Total = cond_Total (condition ah),
             FailingSince = failingSince ts\<rparr> = newAlertInfo ah ep ts n"
    by (simp add: newAlertInfo_def)
  show ?thesis
  proof (cases "notifyCh ah")
    case None
    then show ?thesis
      using af nc
      by (simp add: notify_def Let_def ai commandConfigured_def split: option.splits sum.splits)
  next
    case (Some ch)
    with assms have "length (queued ch) < capacity ch" by (simp add: sendBlocks_def)
    with Some show ?thesis
      using af nc
      by (simp add: notify_def Let_def ai commandConfigured_def send_def
            split: option.splits sum.splits)
  qed
qed

text \<open>
  How a call of \<open>notify\<close> ends: \<open>alerted\<close> is set and the warning line comes first in
  every case; the call returns unless the channel send waits forever or the tokenizer
  succeeds with no word at all.
\<close>

lemma notify_outcome:
  "(case notify ext ah ep ts n of (out, ch', ts', tr) \<Rightarrow>
      alerted ts'
      \<and> (\<exists>rest. tr =
            Logf WARNING ''ALERT (%s): target (%s), failures (%d) higher than (%d) since (%v)''
              [S (name ah), S (ep_Name ep), I n, I (cond_Failures (condition ah)),
               T (failingSince ts)] # rest)
      \<and> out =
          (if sendBlocks ah then Blocked
           else if commandConfigured ah
                 \<and> Split ext (fst (SubstituteLabels ext (Command (the (notifyConfig ah)))
                                     (fst (alertFields ext (newAlertInfo ah ep ts n))))) = Inr []
           then Panicked IndexOutOfRange
           else Returned))"
proof (cases "sendBlocks ah")
  case True
  then show ?thesis by (simp add: notify_blocked)
next
  case False
  then show ?thesis
    by (simp add: notify_runs notifyCommand_returns split: sum.splits list.splits)
qed

text \<open>
  C4 at a handler whose configured command is one space. The command passes the guard
  of \<open>notify\<close>, which only excludes the empty string; the tokenizer yields no word, and
  the call ends in the index panic of \<open>notifyCommand\<close>, which reaches the caller. The
  flag is set and the warning line is logged before that.
\<close>

theorem notify_blank_command_panics:
  "fst (notify collab
      \<lparr>name = ''disk-full'', probeName = ''disk'',
       condition = \<lparr>cond_Failures = 3, cond_Total = 5\<rparr>, notifyCh = None,
       notifyConfig = Some \<lparr>Command = '' ''\<rparr>\<rparr>
      \<lparr>ep_Name = ''web'', ep_Labels = [], ep_Dst = ''host1''\<rparr>
      \<lparr>alerted = False, failingSince = ''2023-01-02T03:04:05Z'', conditionID = ''c1''\<rparr> 4)
     = Panicked IndexOutOfRange
   \<and> alerted (fst (snd (snd (notify collab
      \<lparr>name = ''disk-full'', probeName = ''disk'',
       condition = \<lparr>cond_Failures = 3, cond_Total = 5\<rparr>, notifyCh = None,
       notifyConfig = Some \<lparr>Command = '' ''\<rparr>\<rparr>
      \<lparr>ep_Name = ''web'', ep_Labels = [], ep_Dst = ''host1''\<rparr>
      \<lparr>alerted = False, failingSince = ''2023-01-02T03:04:05Z'', conditionID = ''c1''\<rparr> 4))))
   \<and> hd (snd (snd (snd (notify collab
      \<lparr>name = ''disk-full'', probeName = ''disk'',
       condition = \<lparr>cond_Failures = 3, cond_Total = 5\<rparr>, notifyCh = None,
       notifyConfig = Some \<lparr>Command = '' ''\<rparr>\<rparr>
      \<lparr>ep_Name = ''web'', ep_Labels = [], ep_Dst = ''host1''\<rparr>
      \<lparr>alerted = False, failingSince = ''2023-01-02T03:04:05Z'', conditionID = ''c1''\<rparr> 4))))
     = Logf WARNING ''ALERT (%s): target (%s), failures (%d) higher than (%d) since (%v)''
         [S ''disk-full'', S ''web'', I 4, I 3, T ''2023-01-02T03:04:05Z'']"
proof -
  let ?ah = "\<lparr>name = ''disk-full'', probeName = ''disk'',
       condition = \<lparr>cond_Failures = 3, cond_Total = 5\<rparr>, notifyCh = None,
       notifyConfig = Some \<lparr>Command = '' ''\<rparr>\<rparr> :: string AlertHandler"
  have split: "\<And>fs. Split collab (fst (SubstituteLabels collab '' '' fs)) = Inr []"
    by (simp add: collab_def strtemplate_SubstituteLabels_def substitute_def resolved_def
          shlex_Split_def spaceRune_def)
  have cfg: "\<not> sendBlocks ?ah" "commandConfigured ?ah"
    by (simp_all add: sendBlocks_def commandConfigured_def)
  show ?thesis
    using notify_outcome [where ext = collab and ah = ?ah
      and ep = "\<lparr>ep_Name = ''web'', ep_Labels = [], ep_Dst = ''host1''\<rparr>"
      and ts = "\<lparr>alerted = False, failingSince = ''2023-01-02T03:04:05Z'', conditionID = ''c1''\<rparr>"
      and n = 4] cfg
    by (auto simp: split split: prod.splits)
qed

text \<open>
  C5. The trace of every call of \<open>notify\<close> is the warning line, then the assignment to
  \<open>alerted\<close>, then the channel send if there is a channel and the send goes through, then
  only events of the dispatch phase, which end with the trace of \<open>notifyCommand\<close> when a
  command is configured.
\<close>

theorem notify_order:
  "(case notify ext ah ep ts n of (out, ch', ts', tr) \<Rightarrow>
      \<exists>audit push later.
         tr = [audit, Assign_alerted True] @ push @ later
         \<and> phase_of audit = Audit
         \<and> push = (if notifyCh ah \<noteq> None \<and> out \<noteq> Blocked
                    then [ChanSend (newAlertInfo ah ep ts n)] else [])
         \<and> (\<forall>e \<in> set later. phase_of e = Dispatch)
         \<and> (commandConfigured ah \<and> out \<noteq> Blocked \<longrightarrow>
              suffix (snd (notifyCommand ext (Command (the (notifyConfig ah)))
                             (fst (alertFields ext (newAlertInfo ah ep ts n))) False)) later))"
proof (cases "sendBlocks ah")
  case True
  then show ?thesis by (simp add: notify_blocked)
next
  case False
  let ?ai = "newAlertInfo ah ep ts n"
  let ?audit = "Logf WARNING ''ALERT (%s): target (%s), failures (%d) higher than (%d) since (%v)''
               [S (name ah), S (ep_Name ep), I n, I (cond_Failures (condition ah)),
                T (failingSince ts)]"
  let ?push = "case notifyCh ah of None \<Rightarrow> [] | Some ch \<Rightarrow> [ChanSend ?ai]"
  let ?errlog = "case snd (alertFields ext ?ai) of None \<Rightarrow> []
               | Some e \<Rightarrow> [Logf ERROR ''Error getting alert fields: %v'' [E e]]"
  let ?disp = "if commandConfigured ah
               then snd (notifyCommand ext (Command (the (notifyConfig ah)))
                           (fst (alertFields ext ?ai)) False)
               else []"
  obtain out ch' ts' tr where res: "notify ext ah ep ts n = (out, ch', ts', tr)"
    by (cases "notify ext ah ep ts n") auto
  from res False have tr: "tr = [?audit, Assign_alerted True] @ ?push @ (?errlog @ ?disp)"
    and out: "out \<noteq> Blocked"
    by (auto simp: notify_runs split: sum.splits if_splits)
  have a: "phase_of ?audit = Audit" by simp
  have p: "?push = (if notifyCh ah \<noteq> None \<and> out \<noteq> Blocked then [ChanSend ?ai] else [])"
    using out by (simp split: option.splits)
  have l: "\<forall>e \<in> set (?errlog @ ?disp). phase_of e = Dispatch"
    by (auto simp: notifyCommand_phase split: option.splits if_splits)
  have s: "commandConfigured ah \<and> out \<noteq> Blocked \<longrightarrow>
          suffix (snd (notifyCommand ext (Command (the (notifyConfig ah)))
                             (fst (alertFields ext ?ai)) False)) (?errlog @ ?disp)"
    by (simp add: suffix_def)
  show ?thesis
    unfolding res using tr a p l s by blast
qed

theorem notify_order_witness:
  "(case notify collab
      \<lparr>name = ''disk-full'', probeName = ''disk'',
       condition = \<lparr>cond_Failures = 3, cond_Total = 5\<rparr>, notifyCh = Some (Chan 2 []),
       notifyConfig = Some \<lparr>Command = ''notify.sh --target={{target}}''\<rparr>\<rparr>
      \<lparr>ep_Name = ''web'', ep_Labels = [], ep_Dst = ''host1''\<rparr>
      \<lparr>alerted = False, failingSince = ''2023-01-02T03:04:05Z'', conditionID = ''c1''\<rparr> 4
    of (out, ch', ts', tr) \<Rightarrow>
      out = Returned
      \<and> map phase_of tr = [Audit, Mutation, Push, Dispatch, Dispatch]
      \<and> drop 3 tr =
          [Logf INFO ''Starting external command: %s'' [S ''notify.sh --target=host1''],
           CmdStart \<lparr>Path = ''/usr/bin/notify.sh'', Args = [''notify.sh'', ''--target=host1'']\<rparr>
             None])"
proof -
  let ?ah = "\<lparr>name = ''disk-full'', probeName = ''disk'',
       condition = \<lparr>cond_Failures = 3, cond_Total = 5\<rparr>, notifyCh = Some (Chan 2 []),
       notifyConfig = Some \<lparr>Command = ''notify.sh --target={{target}}''\<rparr>\<rparr> :: string AlertHandler"
  let ?ep = "\<lparr>ep_Name = ''web'', ep_Labels = [], ep_Dst = ''host1''\<rparr>"
  let ?ts = "\<lparr>alerted = False, failingSince = ''2023-01-02T03:04:05Z'', conditionID = ''c1''\<rparr>"
  let ?fs = "fst (alertFields collab (newAlertInfo ?ah ?ep ?ts 4))"
  have cfg: "\<not> sendBlocks ?ah" "commandConfigured ?ah" "notifyCh ?ah \<noteq> None"
    "Command (the (notifyConfig ?ah)) = ''notify.sh --target={{target}}''"
    by (simp_all add: sendBlocks_def commandConfigured_def)
  have target: "fmlookup ?fs ''target'' = Some ''host1''"
    by (simp add: alertFields_fieldSet collab_def json_Marshal_def fieldSet_def newAlertInfo_def)
  have sub: "SubstituteLabels collab ''notify.sh --target={{target}}'' ?fs
      = (''notify.sh --target=host1'', True)"
    using target
    by (simp add: collab_def strtemplate_SubstituteLabels_def substitute_def resolved_def)
  have split: "Split collab ''notify.sh --target=host1'' = Inr [''notify.sh'', ''--target=host1'']"
    by (simp add: collab_def shlex_Split_def spaceRune_def emit_def)
  have cmd: "notifyCommand collab ''notify.sh --target={{target}}'' ?fs False =
      (Inr [], [Logf INFO ''Starting external command: %s'' [S ''notify.sh --target=host1''],
           CmdStart \<lparr>Path = ''/usr/bin/notify.sh'', Args = [''notify.sh'', ''--target=host1'']\<rparr>
             None])"
  proof -
    have pre: "Split collab (fst (SubstituteLabels collab ''notify.sh --target={{target}}'' ?fs))
        = Inr [''notify.sh'', ''--target=host1'']"
      by (simp add: sub split)
    have os: "\<And>nm. LookPath collab nm = ''/usr/bin/'' @ nm" "\<And>c. Start collab c = None"
      by (simp_all add: collab_def)
    show ?thesis
      unfolding notifyCommand_live [OF pre] by (simp add: sub CommandContext_def os)
  qed
  have out: "fst (notify collab ?ah ?ep ?ts 4) = Returned"
    using cfg(1,2) by (simp add: notify_runs cmd)
  obtain out ch' ts' tr where res: "notify collab ?ah ?ep ?ts 4 = (out, ch', ts', tr)"
    by (cases "notify collab ?ah ?ep ?ts 4") auto
  with out have o: "out = Returned" by simp
  from notify_order [where ext = collab and ah = ?ah and ep = ?ep and ts = ?ts and n = 4]
  obtain audit later where tr: "tr = [audit, Assign_alerted True]
        @ [ChanSend (newAlertInfo ?ah ?ep ?ts 4)] @ later"
    and a: "phase_of audit = Audit"
    and l: "\<forall>e \<in> set later. phase_of e = Dispatch"
    and s: "suffix (snd (notifyCommand collab ''notify.sh --target={{target}}'' ?fs False)) later"
    unfolding res using o cfg by auto
  have noerr: "snd (alertFields collab (newAlertInfo ?ah ?ep ?ts 4)) = None"
    by (simp add: alertFields_fieldSet collab_def json_Marshal_def)
  have len: "length tr = 5"
    using res cfg(1,2) by (auto simp: notify_runs cmd noerr)
  with tr have "length later = 2" by simp
  with s have later: "later = [Logf INFO ''Starting external command: %s'' [S ''notify.sh --target=host1''],
           CmdStart \<lparr>Path = ''/usr/bin/notify.sh'', Args = [''notify.sh'', ''--target=host1'']\<rparr>
             None]"
    by (auto simp: cmd suffix_def)
  show ?thesis unfolding res using o tr a later by simp
qed

section \<open>The field mapping\<close>

subsection \<open>Itoa writes decimal numerals\<close>

lemma digit_cases:
  assumes "d < 10"
  shows "digit d \<noteq> CHR ''-'' \<and> digitValue (digit d) = d"
proof -
  from assms have "d \<in> {0, 1, 2, 3, 4, 5, 6, 7, 8, 9}" by auto
  then show ?thesis by (auto simp: digit_def digitValue_def)
qed

lemma fromDigits_snoc: "fromDigits (s @ [c]) = 10 * fromDigits s + digitValue c"
  by (simp add: fromDigits_def)

lemma fromDigits_digits: "fromDigits (digits n) = n"
proof (induction n rule: digits.induct)
  case (1 n)
  show ?case
  proof (cases "n < 10")
    case True
    then show ?thesis by (subst digits.simps) (simp add: fromDigits_def digit_cases)
  next
    case False
    then have "fromDigits (digits n) = 10 * fromDigits (digits (n div 10)) + digitValue (digit (n mod 10))"
      by (subst digits.simps) (simp add: fromDigits_snoc)
    with False 1 show ?thesis by (simp add: digit_cases)
  qed
qed

lemma digits_head: "\<exists>c cs. digits n = c # cs \<and> c \<noteq> CHR ''-''"
proof (induction n rule: digits.induct)
  case (1 n)
  show ?case
  proof (cases "n < 10")
    case True
    then show ?thesis by (subst digits.simps) (simp add: digit_cases)
  next
    case False
    with 1 obtain c cs where "digits (n div 10) = c # cs" "c \<noteq> CHR ''-''" by auto
    with False show ?thesis by (subst digits.simps) simp
  qed
qed

lemma readInt_Itoa: "readInt (Itoa i) = i"
proof (cases "i < 0")
  case True
  then show ?thesis by (simp add: readInt_def Itoa_def fromDigits_digits)
next
  case False
  obtain c cs where "digits (nat i) = c # cs" "c \<noteq> CHR ''-''" using digits_head by blast
  with False show ?thesis
    using fromDigits_digits [of "nat i"] by (simp add: readInt_def Itoa_def)
qed

subsection \<open>The mapping that alertFields returns\<close>

lemma alertFields_success:
  assumes "alertFields ext alertInfo = (fs, None)"
  shows "\<exists>j. Marshal ext (fieldSet ext alertInfo) = Inr j
           \<and> fs = fmupd ''json'' j (fieldSet ext alertInfo)"
  using assms by (auto simp: alertFields_fieldSet split: sum.splits)

lemma fieldSet_no_json: "''json'' \<notin> fmdom' (fieldSet ext alertInfo)"
  unfolding fieldSet_dom by auto

text \<open>
  C2. When \<open>alertFields\<close> succeeds, the keys of the mapping are exactly the seven
  reserved keys, one key \<open>target.label.<name>\<close> for each label name and the key
  \<open>json\<close>, so their number is eight plus the number of label names. \<open>failures\<close> and
  \<open>total\<close> hold the decimal numerals of the two counts (reading them gives the counts
  back), \<open>since\<close> holds the time in RFC 3339 format, \<open>target\<close> the destination address
  of the endpoint, and each label key holds the value of its label.
\<close>

theorem alertFields_keys:
  assumes "alertFields ext alertInfo = (fs, None)"
  shows "fmdom' fs =
           {''alert'', ''probe'', ''target'', ''condition_id'', ''failures'', ''total'', ''since''}
           \<union> (\<lambda>k. ''target.label.'' @ k) ` fst ` set (ep_Labels (Target alertInfo))
           \<union> {''json''}
       \<and> card (fmdom' fs) = 7 + card (fst ` set (ep_Labels (Target alertInfo))) + 1
       \<and> fmlookup fs ''alert'' = Some (Name alertInfo)
       \<and> fmlookup fs ''probe'' = Some (ProbeName alertInfo)
       \<and> fmlookup fs ''target'' = Some (ep_Dst (Target alertInfo))
       \<and> fmlookup fs ''condition_id'' = Some (ConditionID alertInfo)
       \<and> fmlookup fs ''failures'' = Some (Itoa (Failures alertInfo))
       \<and> readInt (Itoa (Failures alertInfo)) = Failures alertInfo
       \<and> fmlookup fs ''total'' = Some (Itoa (Total alertInfo))
       \<and> readInt (Itoa (Total alertInfo)) = Total alertInfo
       \<and> fmlookup fs ''since'' = Some (FormatRFC3339 ext (FailingSince alertInfo))
       \<and> (distinct (map fst (ep_Labels (Target alertInfo))) \<longrightarrow>
            (\<forall>(k, v) \<in> set (ep_Labels (Target alertInfo)).
                fmlookup fs (''target.label.'' @ k) = Some v))
       \<and> (\<exists>j. fmlookup fs ''json'' = Some j)"
proof -
  let ?m = "fieldSet ext alertInfo"
  from alertFields_success [OF assms]
  obtain j where j: "Marshal ext ?m = Inr j" and fs: "fs = fmupd ''json'' j ?m" by blast
  have d0: "fmdom' fs = fmdom' ?m \<union> {''json''}" unfolding fs by simp
  have dom: "fmdom' fs =
           {''alert'', ''probe'', ''target'', ''condition_id'', ''failures'', ''total'', ''since''}
           \<union> (\<lambda>k. ''target.label.'' @ k) ` fst ` set (ep_Labels (Target alertInfo))
           \<union> {''json''}"
    unfolding d0 by (simp only: fieldSet_dom)
  have fin: "finite (fmdom' ?m)" by simp
  have "card (fmdom' fs) = card (fmdom' ?m) + 1"
    unfolding d0 using fieldSet_no_json [of ext alertInfo] fin by simp
  then have card: "card (fmdom' fs) = 7 + card (fst ` set (ep_Labels (Target alertInfo))) + 1"
    by (simp only: fieldSet_card)
  have lk: "\<And>key. key \<noteq> ''json'' \<Longrightarrow> fmlookup fs key = fmlookup ?m key"
    unfolding fs by simp
  have r1: "fmlookup fs ''alert'' = Some (Name alertInfo)"
    by (subst lk) (simp_all add: fieldSet_reserved)
  have r2: "fmlookup fs ''probe'' = Some (ProbeName alertInfo)"
    by (subst lk) (simp_all add: fieldSet_reserved)
  have r3: "fmlookup fs ''target'' = Some (ep_Dst (Target alertInfo))"
    by (subst lk) (simp_all add: fieldSet_reserved)
  have r4: "fmlookup fs ''condition_id'' = Some (ConditionID alertInfo)"
    by (subst lk) (simp_all add: fieldSet_reserved)
  have r5: "fmlookup fs ''failures'' = Some (Itoa (Failures alertInfo))"
    by (subst lk) (simp_all add: fieldSet_reserved)
  have r6: "fmlookup fs ''total'' = Some (Itoa (Total alertInfo))"
    by (subst lk) (simp_all add: fieldSet_reserved)
  have r7: "fmlookup fs ''since'' = Some (FormatRFC3339 ext (FailingSince alertInfo))"
    by (subst lk) (simp_all add: fieldSet_reserved)
  have labels: "distinct (map fst (ep_Labels (Target alertInfo))) \<longrightarrow>
            (\<forall>(k, v) \<in> set (ep_Labels (Target alertInfo)).
                fmlookup fs (''target.label.'' @ k) = Some v)"
  proof (intro impI ballI)
    fix x assume d: "distinct (map fst (ep_Labels (Target alertInfo)))"
      and x: "x \<in> set (ep_Labels (Target alertInfo))"
    obtain k v where kv: "x = (k, v)" by (cases x)
    have "''target.label.'' @ k \<noteq> ''json''" by simp
    then have "fmlookup fs (''target.label.'' @ k) = fmlookup ?m (''target.label.'' @ k)"
      by (rule lk)
    also have "\<dots> = Some v" using d x unfolding kv by (rule fieldSet_label)
    finally show "case x of (k, v) \<Rightarrow> fmlookup fs (''target.label.'' @ k) = Some v"
      unfolding kv by simp
  qed
  have json: "\<exists>j. fmlookup fs ''json'' = Some j" unfolding fs by simp
  show ?thesis
    by (intro conjI) (fact dom card r1 r2 r3 r4 r5 r6 r7 labels json | rule readInt_Itoa)+
qed

theorem alertFields_keys_witness:
  "alertFields collab
      \<lparr>Name = ''disk-full'', ProbeName = ''disk'', ConditionID = ''c1'',
       Target = \<lparr>ep_Name = ''web'', ep_Labels = [(''zone'', ''a''), (''env'', ''prod'')],
                 ep_Dst = ''host1''\<rparr>,
       Failures = 5, Total = 12, FailingSince = ''2023-01-02T03:04:05Z''\<rparr>
     = (fst (alertFields collab
          \<lparr>Name = ''disk-full'', ProbeName = ''disk'', ConditionID = ''c1'',
           Target = \<lparr>ep_Name = ''web'', ep_Labels = [(''zone'', ''a''), (''env'', ''prod'')],
                     ep_Dst = ''host1''\<rparr>,
           Failures = 5, Total = 12, FailingSince = ''2023-01-02T03:04:05Z''\<rparr>), None)
   \<and> distinct (map fst [(''zone'', ''a''), (''env'', ''prod'')])
   \<and> (let fs = fst (alertFields collab
          \<lparr>Name = ''disk-full'', ProbeName = ''disk'', ConditionID = ''c1'',
           Target = \<lparr>ep_Name = ''web'', ep_Labels = [(''zone'', ''a''), (''env'', ''prod'')],
                     ep_Dst = ''host1''\<rparr>,
           Failures = 5, Total = 12, FailingSince = ''2023-01-02T03:04:05Z''\<rparr>)
      in fmdom' fs =
           {''alert'', ''probe'', ''target'', ''condition_id'', ''failures'', ''total'', ''since''}
           \<union> {''target.label.zone'', ''target.label.env''} \<union> {''json''}
         \<and> card (fmdom' fs) = 10
         \<and> fmlookup fs ''alert'' = Some ''disk-full''
         \<and> fmlookup fs ''probe'' = Some ''disk''
         \<and> fmlookup fs ''target'' = Some ''host1''
         \<and> fmlookup fs ''condition_id'' = Some ''c1''
         \<and> fmlookup fs ''failures'' = Some ''5''
         \<and> fmlookup fs ''total'' = Some ''12''
         \<and> fmlookup fs ''since'' = Some ''2023-01-02T03:04:05Z''
         \<and> fmlookup fs ''target.label.zone'' = Some ''a''
         \<and> fmlookup fs ''target.label.env'' = Some ''prod'')"
proof -
  define a :: "string AlertInfo" where
    "a = \<lparr>Name = ''disk-full'', ProbeName = ''disk'', ConditionID = ''c1'',
           Target = \<lparr>ep_Name = ''web'', ep_Labels = [(''zone'', ''a''), (''env'', ''prod'')],
                     ep_Dst = ''host1''\<rparr>,
           Failures = 5, Total = 12, FailingSince = ''2023-01-02T03:04:05Z''\<rparr>"
  define fs where "fs = fst (alertFields collab a)"
  have sel: "Name a = ''disk-full''" "ProbeName a = ''disk''" "ConditionID a = ''c1''"
    "ep_Labels (Target a) = [(''zone'', ''a''), (''env'', ''prod'')]"
    "ep_Dst (Target a) = ''host1''" "Failures a = 5" "Total a = 12"
    "FailingSince a = ''2023-01-02T03:04:05Z''"
    by (simp_all add: a_def)
  have ok: "alertFields collab a = (fs, None)"
    unfolding fs_def by (simp add: alertFields_fieldSet collab_def json_Marshal_def)
  have dist: "distinct (map fst [(''zone'', ''a''), (''env'', ''prod'')])" by simp
  have fmt: "FormatRFC3339 collab ''2023-01-02T03:04:05Z'' = ''2023-01-02T03:04:05Z''"
    by (simp add: collab_def)
  have itoa: "Itoa 5 = ''5''" "Itoa 12 = ''12''"
    by (simp_all add: Itoa_def digits.simps digit_def)
  have img: "(\<lambda>k. ''target.label.'' @ k) ` fst ` set [(''zone'', ''a''), (''env'', ''prod'')]
       = {''target.label.zone'', ''target.label.env''}"
    by simp
  have crd: "card (fst ` set [(''zone'', ''a''), (''env'', ''prod'')]) = 2" by simp
  note k = alertFields_keys [OF ok, unfolded sel img crd fmt itoa]
  have d: "fmdom' fs =
           {''alert'', ''probe'', ''target'', ''condition_id'', ''failures'', ''total'', ''since''}
           \<union> {''target.label.zone'', ''target.label.env''} \<union> {''json''}"
    using k by (rule conjunct1)
  have c: "card (fmdom' fs) = 10" using k by simp
  have v: "fmlookup fs ''alert'' = Some ''disk-full''" "fmlookup fs ''probe'' = Some ''disk''"
    "fmlookup fs ''target'' = Some ''host1''" "fmlookup fs ''condition_id'' = Some ''c1''"
    "fmlookup fs ''failures'' = Some ''5''" "fmlookup fs ''total'' = Some ''12''"
    "fmlookup fs ''since'' = Some ''2023-01-02T03:04:05Z''"
    using k by blast+
  from k dist have "\<forall>(k, v) \<in> set [(''zone'', ''a''), (''env'', ''prod'')].
      fmlookup fs (''target.label.'' @ k) = Some v" by blast
  then have l: "fmlookup fs ''target.label.zone'' = Some ''a''"
    "fmlookup fs ''target.label.env'' = Some ''prod''"
    by simp_all
  show ?thesis
    unfolding Let_def a_def [symmetric] fs_def [symmetric]
    by (intro conjI) (fact ok dist d c v l)+
qed

subsection \<open>The json field\<close>




end
